theory Spec2Isabelle
  imports Complex_Main "HOL-Library.AList"
begin

section \<open>Python values used by the WaterFeature8 library\<close>

text \<open>
  A Python \<^verbatim>\<open>str\<close> is modelled by the bytes of its UTF-8 encoding, as a HOL
  \<^typ>\<open>string\<close>. The comma is a single byte that occurs in no multi-byte sequence, so
  \<^verbatim>\<open>split(',')\<close> works on bytes as it does on code points. \<^verbatim>\<open>strip()\<close> removes the
  code points for which \<^verbatim>\<open>str.isspace\<close> holds; \<open>whitespace\<close> lists their encodings
  (U+0009..U+000D, U+001C..U+0020, U+0085, U+00A0, U+1680, U+2000..U+200A, U+2028,
  U+2029, U+202F, U+205F, U+3000).
\<close>

definition whitespace :: "string list" where
  "whitespace =
     [[CHR 0x09], [CHR 0x0A], [CHR 0x0B], [CHR 0x0C], [CHR 0x0D],
      [CHR 0x1C], [CHR 0x1D], [CHR 0x1E], [CHR 0x1F], [CHR 0x20],
      [CHR 0xC2, CHR 0x85], [CHR 0xC2, CHR 0xA0],
      [CHR 0xE1, CHR 0x9A, CHR 0x80],
      [CHR 0xE2, CHR 0x80, CHR 0x80], [CHR 0xE2, CHR 0x80, CHR 0x81],
      [CHR 0xE2, CHR 0x80, CHR 0x82], [CHR 0xE2, CHR 0x80, CHR 0x83],
      [CHR 0xE2, CHR 0x80, CHR 0x84], [CHR 0xE2, CHR 0x80, CHR 0x85],
      [CHR 0xE2, CHR 0x80, CHR 0x86], [CHR 0xE2, CHR 0x80, CHR 0x87],
      [CHR 0xE2, CHR 0x80, CHR 0x88], [CHR 0xE2, CHR 0x80, CHR 0x89],
      [CHR 0xE2, CHR 0x80, CHR 0x8A],
      [CHR 0xE2, CHR 0x80, CHR 0xA8], [CHR 0xE2, CHR 0x80, CHR 0xA9],
      [CHR 0xE2, CHR 0x80, CHR 0xAF], [CHR 0xE2, CHR 0x81, CHR 0x9F],
      [CHR 0xE3, CHR 0x80, CHR 0x80]]"

text \<open>The number of bytes of the code point from \<open>seqs\<close> that starts \<open>s\<close>, 0 when none does.\<close>

definition ws_len :: "string list \<Rightarrow> string \<Rightarrow> nat" where
  "ws_len seqs s =
     (case find (\<lambda>w. take (length w) s = w) seqs of None \<Rightarrow> 0 | Some w \<Rightarrow> length w)"

fun lstrip_seqs :: "string list \<Rightarrow> string \<Rightarrow> string" where
  "lstrip_seqs seqs [] = []"
| "lstrip_seqs seqs (c # cs) =
     (if ws_len seqs (c # cs) = 0 then c # cs
      else lstrip_seqs seqs (drop (ws_len seqs (c # cs) - 1) cs))"

definition lstrip :: "string \<Rightarrow> string" where
  "lstrip s = lstrip_seqs whitespace s"

text \<open>Stripping on the right reads the string, and each encoding, backwards.\<close>

definition rstrip :: "string \<Rightarrow> string" where
  "rstrip s = rev (lstrip_seqs (map rev whitespace) (rev s))"

definition strip :: "string \<Rightarrow> string" where
  "strip s = rstrip (lstrip s)"

text \<open>\<^verbatim>\<open>s.split(',')\<close>: a string with \<open>n\<close> commas has \<open>n + 1\<close> fields, empty ones included.\<close>

fun split_comma :: "string \<Rightarrow> string list" where
  "split_comma [] = [[]]"
| "split_comma (c # cs) =
     (if c = CHR '','' then [] # split_comma cs
      else (case split_comma cs of
              [] \<Rightarrow> [[c]]
            | p # ps \<Rightarrow> (c # p) # ps))"

text \<open>
  A Python \<^verbatim>\<open>float\<close>: a finite number, an infinity or a NaN. The builtin \<^verbatim>\<open>float(s)\<close>
  is not part of the repository; the parser takes it as the parameter \<open>float_of\<close>, which
  is \<open>None\<close> where the builtin raises \<^verbatim>\<open>ValueError\<close>.
\<close>

datatype pyfloat = Finite real | PosInf | NegInf | NaN

text \<open>\<^verbatim>\<open>int(x)\<close> on a finite float truncates towards zero.\<close>

definition py_int :: "real \<Rightarrow> int" where
  "py_int x = (if 0 \<le> x then \<lfloor>x\<rfloor> else \<lceil>x\<rceil>)"

section \<open>The reading parser\<close>

record measurement =
  val :: pyfloat
  unit :: string
  description :: string
  raw :: string

record telemetry =
  device_timestamp :: string
  local_timestamp :: string
  epoch_timestamp :: int
  variables :: "(string \<times> measurement) list"
  device_id :: string
  raw_line :: string

definition variable_labels :: "string list" where
  "variable_labels = [''EC'', ''RTD_EC'', ''pH'', ''RTD_pH'', ''DO'', ''RTD_DO'', ''ORP'']"

definition variable_units :: "string list" where
  "variable_units =
     [[CHR 0xCE, CHR 0xBC] @ ''S/cm'', [CHR 0xC2, CHR 0xB0] @ ''C'', ''pH'',
      [CHR 0xC2, CHR 0xB0] @ ''C'', ''mg/L'', [CHR 0xC2, CHR 0xB0] @ ''C'', ''mV'']"

definition variable_descriptions :: "string list" where
  "variable_descriptions =
     [''Electrical Conductivity'',
      ''Temperature (EC compensation)'',
      ''pH Level'',
      ''Temperature (pH compensation)'',
      ''Dissolved Oxygen'',
      ''Temperature (DO compensation)'',
      ''Oxidation-Reduction Potential'']"

text \<open>
  The body of the \<^verbatim>\<open>for i, value in enumerate(raw_variables)\<close> loop for one field: the
  inner \<^verbatim>\<open>try\<close> converts the trimmed token (an empty one counts as 0.0), and the
  \<^verbatim>\<open>except (ValueError, TypeError)\<close> branch stores 0.0 with the same unit, description
  and trimmed token.
\<close>

definition measure_field :: "(string \<Rightarrow> pyfloat option) \<Rightarrow> nat \<Rightarrow> string \<Rightarrow> measurement" where
  "measure_field float_of i v =
     (case (if strip v \<noteq> [] then float_of (strip v) else Some (Finite 0)) of
        Some numeric_value \<Rightarrow>
          \<lparr>val = numeric_value, unit = variable_units ! i,
           description = variable_descriptions ! i, raw = strip v\<rparr>
      | None \<Rightarrow>
          \<lparr>val = Finite 0, unit = variable_units ! i,
           description = variable_descriptions ! i, raw = strip v\<rparr>)"

text \<open>
  The loop itself. \<open>variables\<close> is the dict built so far, in insertion order; assigning
  to a key that is present replaces its value in place, as \<open>AList.update\<close> does.
  Fields at index 7 and beyond are skipped.
\<close>

fun collect_variables ::
  "(string \<Rightarrow> pyfloat option) \<Rightarrow> nat \<Rightarrow> string list \<Rightarrow> (string \<times> measurement) list
     \<Rightarrow> (string \<times> measurement) list" where
  "collect_variables float_of i [] vars = vars"
| "collect_variables float_of i (v # vs) vars =
     collect_variables float_of (Suc i) vs
       (if i < length variable_labels
        then AList.update (variable_labels ! i) (measure_field float_of i v) vars
        else vars)"

text \<open>
  \<^verbatim>\<open>parse_data_line\<close>. The two clock readings it takes (\<^verbatim>\<open>datetime.now().isoformat()\<close>
  and \<^verbatim>\<open>time.time()\<close>) are the parameters \<open>now_iso\<close> and \<open>now_time\<close>. \<open>None\<close> is the
  \<^verbatim>\<open>return None\<close> for fewer than two fields; the outer \<^verbatim>\<open>except Exception\<close> has nothing
  to catch, since the only raising call, \<^verbatim>\<open>float\<close>, is handled per field.
\<close>

definition parse_data_line ::
  "(string \<Rightarrow> pyfloat option) \<Rightarrow> string \<Rightarrow> real \<Rightarrow> string \<Rightarrow> telemetry option" where
  "parse_data_line float_of now_iso now_time line =
     (case split_comma (strip line) of
        ts # v # vs \<Rightarrow>
          Some \<lparr>device_timestamp = ts,
                local_timestamp = now_iso,
                epoch_timestamp = py_int now_time,
                variables = collect_variables float_of 0 (v # vs) [],
                device_id = ''WaterFeature8'',
                raw_line = strip line\<rparr>
      | _ \<Rightarrow> None)"

section \<open>The device session and the acquisition loop\<close>

text \<open>
  The serial transport is an external collaborator: \<open>serial_conn\<close> is \<open>None\<close> before
  \<^verbatim>\<open>connect\<close>, and otherwise holds the port's \<open>is_open\<close> flag and the byte strings
  written to it. Registered callbacks are opaque values of type \<open>'cb\<close>.
\<close>

record serial =
  is_open :: bool
  written :: "string list"

record 'cb device =
  port :: string
  baudrate :: int
  serial_conn :: "serial option"
  running :: bool
  data_callbacks :: "'cb list"
  latest_data :: "telemetry option"

text \<open>The test \<^verbatim>\<open>self.serial_conn and self.serial_conn.is_open\<close>.\<close>

definition serial_ready :: "'cb device \<Rightarrow> bool" where
  "serial_ready d = (case serial_conn d of None \<Rightarrow> False | Some s \<Rightarrow> is_open s)"

definition add_data_callback :: "'cb device \<Rightarrow> 'cb \<Rightarrow> 'cb device" where
  "add_data_callback d callback = d\<lparr>data_callbacks := data_callbacks d @ [callback]\<rparr>"

text \<open>
  \<^verbatim>\<open>get_latest_data\<close>, as far as the value it returns goes: \<open>None\<close> for an empty slot,
  else a record equal to the stored one. What the copy shares with the slot is the
  subject of the object store below.
\<close>

definition get_latest_data :: "'cb device \<Rightarrow> telemetry option" where
  "get_latest_data d = latest_data d"

text \<open>
  \<^verbatim>\<open>send_command\<close>. What \<^verbatim>\<open>serial_conn.write\<close> does is the environment's choice:
  it returns, raises \<^verbatim>\<open>serial.SerialException\<close> (which the function catches), or raises
  something else (which the function lets through, \<open>Inl\<close>).
\<close>

datatype write_outcome = Written | WriteSerialException | WriteOtherException

datatype exn = AttributeError | OtherException

definition send_command ::
  "write_outcome \<Rightarrow> 'cb device \<Rightarrow> string \<Rightarrow> exn + (bool \<times> 'cb device)" where
  "send_command w d command =
     (case serial_conn d of
        None \<Rightarrow> Inr (False, d)
      | Some s \<Rightarrow>
          if \<not> is_open s then Inr (False, d)
          else (case w of
                  Written \<Rightarrow>
                    Inr (True, d\<lparr>serial_conn :=
                                   Some (s\<lparr>written := written s @ [command @ ''\<newline>'']\<rparr>)\<rparr>)
                | WriteSerialException \<Rightarrow> Inr (False, d)
                | WriteOtherException \<Rightarrow> Inl OtherException))"

text \<open>
  One line taken from the port by \<^verbatim>\<open>_read_loop\<close>: the decoded text, the reading of
  \<^verbatim>\<open>time.time()\<close> the loop takes for it, and the two clock readings the parser takes.
  A reading of \<^verbatim>\<open>time.time()\<close> is a number of seconds and is modelled as a real.
\<close>

record arrival =
  line :: string
  current_time :: real
  parse_iso :: string
  parse_time :: real

text \<open>
  The state of a running loop: the device object, the local \<open>last_sample_time\<close>, and
  the record of every callback invocation made so far (callback and argument, in order).
\<close>

record 'cb reader =
  dev :: "'cb device"
  last_sample_time :: real
  calls :: "('cb \<times> telemetry) list"

text \<open>
  The body of the loop for a line that was read. A callback that raises is caught per
  callback, so every registered callback is invoked. \<open>last_sample_time\<close> is set whenever
  the gate is passed, whether or not the line parsed.
\<close>

definition read_line_step ::
  "(string \<Rightarrow> pyfloat option) \<Rightarrow> 'cb reader \<Rightarrow> arrival \<Rightarrow> 'cb reader" where
  "read_line_step float_of r a =
     (if strip (line a) = [] then r
      else if current_time a - last_sample_time r \<ge> 60 then
        (case parse_data_line float_of (parse_iso a) (parse_time a) (line a) of
           Some parsed_data \<Rightarrow>
             r\<lparr>dev := (dev r)\<lparr>latest_data := Some parsed_data\<rparr>,
               calls := calls r @ map (\<lambda>callback. (callback, parsed_data)) (data_callbacks (dev r)),
               last_sample_time := current_time a\<rparr>
         | None \<Rightarrow> r\<lparr>last_sample_time := current_time a\<rparr>)
      else r)"

text \<open>
  One entry per iteration of \<^verbatim>\<open>while self.running\<close>: nothing waiting, a line read, or
  an exception out of the port (\<^verbatim>\<open>SerialException\<close>) or out of anything else; either
  exception ends the loop.
\<close>

datatype poll = NoInput | Available arrival | SerialFailure | UnexpectedFailure

fun read_iterations ::
  "(string \<Rightarrow> pyfloat option) \<Rightarrow> 'cb reader \<Rightarrow> poll list \<Rightarrow> 'cb reader" where
  "read_iterations float_of r [] = r"
| "read_iterations float_of r (NoInput # ps) =
     (if running (dev r) then read_iterations float_of r ps else r)"
| "read_iterations float_of r (Available a # ps) =
     (if running (dev r) then read_iterations float_of (read_line_step float_of r a) ps else r)"
| "read_iterations float_of r (SerialFailure # ps) = r"
| "read_iterations float_of r (UnexpectedFailure # ps) = r"

text \<open>
  A poll that brings the loop no non-blank line: nothing waiting, or a line that is
  blank after stripping.
\<close>

fun quiet :: "poll \<Rightarrow> bool" where
  "quiet NoInput = True"
| "quiet (Available a) = (strip (line a) = [])"
| "quiet SerialFailure = False"
| "quiet UnexpectedFailure = False"

text \<open>\<^verbatim>\<open>_read_loop\<close>: the loop entered with \<open>last_sample_time = 0\<close>.\<close>

definition read_loop ::
  "(string \<Rightarrow> pyfloat option) \<Rightarrow> 'cb device \<Rightarrow> poll list \<Rightarrow> 'cb reader" where
  "read_loop float_of d ps =
     read_iterations float_of \<lparr>dev = d, last_sample_time = 0, calls = []\<rparr> ps"

section \<open>The AWS IoT bridge\<close>

text \<open>
  Dicts that go through \<^verbatim>\<open>json.dumps\<close> or come out of \<^verbatim>\<open>json.loads\<close> are JSON
  values; an object keeps its keys in insertion order.
\<close>

datatype json =
    JNull
  | JBool bool
  | JInt int
  | JFloat pyfloat
  | JStr string
  | JList "json list"
  | JObj "(string \<times> json) list"

text \<open>\<^verbatim>\<open>d.get(k, default)\<close> and \<^verbatim>\<open>d.update({...})\<close>.\<close>

definition dict_get :: "(string \<times> json) list \<Rightarrow> string \<Rightarrow> json \<Rightarrow> json" where
  "dict_get d k dflt = (case map_of d k of None \<Rightarrow> dflt | Some v \<Rightarrow> v)"

definition dict_update :: "(string \<times> json) list \<Rightarrow> (string \<times> json) list \<Rightarrow> (string \<times> json) list" where
  "dict_update d new = foldl (\<lambda>acc (k, v). AList.update k v acc) d new"

text \<open>The parsed record and a measurement, as the dicts \<^verbatim>\<open>parse_data_line\<close> builds.\<close>

definition measurement_dict :: "measurement \<Rightarrow> json" where
  "measurement_dict m =
     JObj [(''value'', JFloat (val m)), (''unit'', JStr (unit m)),
           (''description'', JStr (description m)), (''raw'', JStr (raw m))]"

definition telemetry_dict :: "telemetry \<Rightarrow> json" where
  "telemetry_dict t =
     JObj [(''device_timestamp'', JStr (device_timestamp t)),
           (''local_timestamp'', JStr (local_timestamp t)),
           (''epoch_timestamp'', JInt (epoch_timestamp t)),
           (''variables'', JObj (map (\<lambda>(name, m). (name, measurement_dict m)) (variables t))),
           (''device_id'', JStr (device_id t)),
           (''raw_line'', JStr (raw_line t))]"

definition get_device_info :: "'cb device \<Rightarrow> json" where
  "get_device_info d =
     JObj [(''device_id'', JStr ''WaterFeature8''),
           (''model'', JStr ''WaterFeature8''),
           (''port'', JStr (port d)),
           (''baudrate'', JInt (baudrate d)),
           (''variables'',
              JList (map (\<lambda>(label, u, desc).
                            JObj [(''name'', JStr label), (''unit'', JStr u), (''description'', JStr desc)])
                       (zip variable_labels (zip variable_units variable_descriptions)))),
           (''status'', JStr (if serial_ready d then ''connected'' else ''disconnected''))]"

text \<open>
  The bridge object. \<open>mqtt_client\<close> is \<open>None\<close> until \<^verbatim>\<open>setup_mqtt_client\<close> has run; after
  that it holds what has been handed to \<^verbatim>\<open>publish\<close>: topic, payload (the value given to
  \<^verbatim>\<open>json.dumps\<close>) and quality of service.
\<close>

record 'cb iot =
  iot_device_id :: string
  waterfeature_device :: "'cb device"
  mqtt_client :: "(string \<times> json \<times> nat) list option"
  connected_to_aws :: bool
  latest_reading :: "telemetry option"

definition topic_telemetry :: "'cb iot \<Rightarrow> string" where
  "topic_telemetry b = ''waterfeature8/'' @ iot_device_id b @ ''/telemetry''"

definition topic_command :: "'cb iot \<Rightarrow> string" where
  "topic_command b = ''waterfeature8/'' @ iot_device_id b @ ''/command''"

definition topic_response :: "'cb iot \<Rightarrow> string" where
  "topic_response b = ''waterfeature8/'' @ iot_device_id b @ ''/response''"

text \<open>
  \<^verbatim>\<open>self.mqtt_client.publish(topic, json.dumps(payload), qos=1)\<close> inside
  \<^verbatim>\<open>try ... except Exception\<close>, as each publishing method has it: without a client the
  attribute access raises, the handler prints, and nothing is published.
\<close>

definition publish :: "'cb iot \<Rightarrow> string \<Rightarrow> json \<Rightarrow> 'cb iot" where
  "publish b topic payload =
     (case mqtt_client b of
        None \<Rightarrow> b
      | Some sent \<Rightarrow> b\<lparr>mqtt_client := Some (sent @ [(topic, payload, 1)])\<rparr>)"

definition publish_command_response :: "'cb iot \<Rightarrow> json \<Rightarrow> 'cb iot" where
  "publish_command_response b response = publish b (topic_response b) response"

definition telemetry_payload :: "'cb iot \<Rightarrow> telemetry \<Rightarrow> json" where
  "telemetry_payload b data =
     JObj [(''device_id'', JStr (iot_device_id b)),
           (''timestamp'', JStr (local_timestamp data)),
           (''epoch_timestamp'', JInt (epoch_timestamp data)),
           (''device_timestamp'', JStr (device_timestamp data)),
           (''measurements'',
              JObj (foldl (\<lambda>acc (var_name, var_data).
                             AList.update var_name
                               (JObj [(''value'', JFloat (val var_data)),
                                      (''unit'', JStr (unit var_data)),
                                      (''description'', JStr (description var_data))]) acc)
                      [] (variables data)))]"

definition publish_telemetry_data :: "'cb iot \<Rightarrow> telemetry \<Rightarrow> 'cb iot" where
  "publish_telemetry_data b data = publish b (topic_telemetry b) (telemetry_payload b data)"

definition data_received_callback :: "'cb iot \<Rightarrow> telemetry \<Rightarrow> 'cb iot" where
  "data_received_callback b data =
     (let b' = b\<lparr>latest_reading := Some data\<rparr>
      in if connected_to_aws b' then publish_telemetry_data b' data else b')"

text \<open>The bridge's own \<^verbatim>\<open>get_latest_data\<close>, on \<open>latest_reading\<close>.\<close>

definition iot_get_latest_data :: "'cb iot \<Rightarrow> telemetry option" where
  "iot_get_latest_data b = latest_reading b"

text \<open>
  An f-string inserts a \<^verbatim>\<open>str\<close> as it is; the text Python gives for any other decoded
  value is the parameter \<open>fmt\<close>.
\<close>

definition format_value :: "(json \<Rightarrow> string) \<Rightarrow> json \<Rightarrow> string" where
  "format_value fmt v = (case v of JStr s \<Rightarrow> s | _ \<Rightarrow> fmt v)"

text \<open>
  The \<^verbatim>\<open>try\<close> block of \<^verbatim>\<open>handle_command\<close>; \<open>now\<close> is \<^verbatim>\<open>datetime.now().isoformat()\<close>.
  \<^verbatim>\<open>command.get\<close> raises \<^verbatim>\<open>AttributeError\<close> on a decoded value that is not an object, and
  an exception that \<^verbatim>\<open>send_command\<close> lets through leaves the block as well.
\<close>

definition dispatch ::
  "(json \<Rightarrow> string) \<Rightarrow> write_outcome \<Rightarrow> string \<Rightarrow> 'cb iot \<Rightarrow> json \<Rightarrow> exn + 'cb iot" where
  "dispatch fmt w now b command =
     (case command of
        JObj entries \<Rightarrow>
          (let cmd_type = dict_get entries ''type'' (JStr []);
               cmd_id = dict_get entries ''command_id'' (JStr ''unknown'');
               response = [(''command_id'', cmd_id),
                           (''device_id'', JStr (iot_device_id b)),
                           (''timestamp'', JStr now),
                           (''status'', JStr ''error''),
                           (''message'', JStr ''Unknown command'')]
           in if cmd_type = JStr ''get_status'' then
                (let device_info = get_device_info (waterfeature_device b);
                     latest = iot_get_latest_data b
                 in Inr (publish_command_response b
                      (JObj (dict_update response
                         [(''status'', JStr ''success''),
                          (''message'', JStr ''Device status retrieved''),
                          (''data'', JObj [(''device_info'', device_info),
                                           (''latest_reading'',
                                              (case latest of None \<Rightarrow> JNull
                                               | Some t \<Rightarrow> telemetry_dict t))])]))))
              else if cmd_type = JStr ''get_reading'' then
                (case iot_get_latest_data b of
                   Some latest \<Rightarrow>
                     Inr (publish_command_response b
                       (JObj (dict_update response
                          [(''status'', JStr ''success''),
                           (''message'', JStr ''Latest reading retrieved''),
                           (''data'', telemetry_dict latest)])))
                 | None \<Rightarrow>
                     Inr (publish_command_response b
                       (JObj (dict_update response
                          [(''status'', JStr ''error''),
                           (''message'', JStr ''No recent data available'')]))))
              else if cmd_type = JStr ''send_device_command'' then
                (let device_cmd = format_value fmt (dict_get entries ''device_command'' (JStr []))
                 in case send_command w (waterfeature_device b) device_cmd of
                      Inl e \<Rightarrow> Inl e
                    | Inr (sent, d') \<Rightarrow>
                        Inr (publish_command_response (b\<lparr>waterfeature_device := d'\<rparr>)
                          (JObj (dict_update response
                             (if sent
                              then [(''status'', JStr ''success''),
                                    (''message'', JStr (''Command sent to device: '' @ device_cmd))]
                              else [(''status'', JStr ''error''),
                                    (''message'', JStr ''Failed to send command to device'')])))))
              else Inr (publish_command_response b (JObj response)))
      | _ \<Rightarrow> Inl AttributeError)"

text \<open>\<^verbatim>\<open>handle_command\<close>: its \<^verbatim>\<open>except Exception\<close> prints and returns.\<close>

definition handle_command ::
  "(json \<Rightarrow> string) \<Rightarrow> write_outcome \<Rightarrow> string \<Rightarrow> 'cb iot \<Rightarrow> json \<Rightarrow> 'cb iot" where
  "handle_command fmt w now b command =
     (case dispatch fmt w now b command of Inl e \<Rightarrow> b | Inr b' \<Rightarrow> b')"

text \<open>
  \<^verbatim>\<open>on_mqtt_message\<close>. \<open>loads\<close> stands for \<^verbatim>\<open>json.loads(msg.payload.decode())\<close> and is
  \<open>None\<close> where either call raises.
\<close>

record mqtt_message =
  topic :: string
  payload :: string

definition on_mqtt_message ::
  "(string \<Rightarrow> json option) \<Rightarrow> (json \<Rightarrow> string) \<Rightarrow> write_outcome \<Rightarrow> string
     \<Rightarrow> 'cb iot \<Rightarrow> mqtt_message \<Rightarrow> 'cb iot" where
  "on_mqtt_message loads fmt w now b msg =
     (case loads (payload msg) of
        None \<Rightarrow> b
      | Some decoded \<Rightarrow>
          if topic msg = topic_command b then handle_command fmt w now b decoded else b)"

section \<open>The object store\<close>

text \<open>
  Where a claim depends on which dict objects are shared, records live in a store:
  the dict at address \<open>a\<close> is \<open>h ! a\<close>, a new object is appended, and a dict value is
  either immediate or a reference to another dict.
\<close>

datatype pyval = PNone | PInt int | PFloat pyfloat | PStr string | PRef nat

type_synonym store = "(string \<times> pyval) list list"

definition alloc :: "store \<Rightarrow> (string \<times> pyval) list \<Rightarrow> store \<times> nat" where
  "alloc h d = (h @ [d], length h)"

text \<open>
  The objects \<^verbatim>\<open>parse_data_line\<close> creates for a record: one dict per measurement, the
  \<^verbatim>\<open>variables\<close> dict that refers to them, and the record's own dict.
\<close>

definition measurement_object :: "measurement \<Rightarrow> (string \<times> pyval) list" where
  "measurement_object m =
     [(''value'', PFloat (val m)), (''unit'', PStr (unit m)),
      (''description'', PStr (description m)), (''raw'', PStr (raw m))]"

fun new_measurements ::
  "store \<Rightarrow> (string \<times> measurement) list \<Rightarrow> store \<times> (string \<times> pyval) list" where
  "new_measurements h [] = (h, [])"
| "new_measurements h ((name, m) # rest) =
     (case alloc h (measurement_object m) of
        (h1, a) \<Rightarrow>
          (case new_measurements h1 rest of
             (h2, entries) \<Rightarrow> (h2, (name, PRef a) # entries)))"

definition new_telemetry :: "store \<Rightarrow> telemetry \<Rightarrow> store \<times> nat" where
  "new_telemetry h t =
     (case new_measurements h (variables t) of
        (h1, entries) \<Rightarrow>
          (case alloc h1 entries of
             (h2, av) \<Rightarrow>
               alloc h2 [(''device_timestamp'', PStr (device_timestamp t)),
                         (''local_timestamp'', PStr (local_timestamp t)),
                         (''epoch_timestamp'', PInt (epoch_timestamp t)),
                         (''variables'', PRef av),
                         (''device_id'', PStr (device_id t)),
                         (''raw_line'', PStr (raw_line t))]))"

text \<open>
  \<^verbatim>\<open>return self.latest_data.copy() if self.latest_data else None\<close>, the body of both
  \<^verbatim>\<open>get_latest_data\<close> methods: \<^verbatim>\<open>dict.copy\<close> makes one new dict with the entries of the
  old one; the values behind references are not copied.
\<close>

definition get_latest_data_copy :: "store \<Rightarrow> nat option \<Rightarrow> store \<times> nat option" where
  "get_latest_data_copy h slot =
     (case slot of
        None \<Rightarrow> (h, None)
      | Some a \<Rightarrow>
          if h ! a = [] then (h, None)
          else (case alloc h (h ! a) of (h', c) \<Rightarrow> (h', Some c)))"

text \<open>
  What a caller can do to a dict it holds: \<^verbatim>\<open>d[k] = v\<close> is \<open>assign h a [k] v\<close>, and
  \<^verbatim>\<open>d[k1][k2][k] = v\<close> is \<open>assign h a [k1, k2, k] v\<close>. \<open>None\<close> is the \<^verbatim>\<open>KeyError\<close> or
  \<^verbatim>\<open>TypeError\<close> of a path that does not lead to a dict.
\<close>

fun assign :: "store \<Rightarrow> nat \<Rightarrow> string list \<Rightarrow> pyval \<Rightarrow> store option" where
  "assign h a [] v = None"
| "assign h a [k] v = Some (h[a := AList.update k v (h ! a)])"
| "assign h a (k # k' # ks) v =
     (case map_of (h ! a) k of
        Some (PRef a') \<Rightarrow> assign h a' (k' # ks) v
      | _ \<Rightarrow> None)"

text \<open>
  The value of an object as \<^verbatim>\<open>==\<close> and \<^verbatim>\<open>json.dumps\<close> see it, followed through at most
  \<open>n\<close> references (a parsed record is three dicts deep).
\<close>

fun view :: "nat \<Rightarrow> store \<Rightarrow> pyval \<Rightarrow> json" where
  "view n h PNone = JNull"
| "view n h (PInt i) = JInt i"
| "view n h (PFloat x) = JFloat x"
| "view n h (PStr s) = JStr s"
| "view 0 h (PRef a) = JNull"
| "view (Suc n) h (PRef a) = JObj (map (\<lambda>kv. (fst kv, view n h (snd kv))) (h ! a))"

text \<open>A store is closed when every reference in it leads to an object of the store.\<close>

definition refs_below :: "nat \<Rightarrow> (string \<times> pyval) list \<Rightarrow> bool" where
  "refs_below m d = list_all (\<lambda>kv. case snd kv of PRef r \<Rightarrow> r < m | _ \<Rightarrow> True) d"

definition closed :: "store \<Rightarrow> bool" where
  "closed h = list_all (refs_below (length h)) h"

section \<open>Example inputs\<close>

text \<open>A stand-in for \<^verbatim>\<open>float\<close> on the tokens of the examples.\<close>

definition example_float :: "string \<Rightarrow> pyfloat option" where
  "example_float s =
     (if s = ''7.5'' then Some (Finite 7.5) else if s = ''21'' then Some (Finite 21) else None)"

text \<open>A connected device with two callbacks, a line with its clock readings, and the
  record parsed from a line with one channel.\<close>

definition example_device :: "nat device" where
  "example_device =
     \<lparr>port = ''/dev/ttyUSB0'', baudrate = 115200,
      serial_conn = Some \<lparr>is_open = True, written = []\<rparr>,
      running = True, data_callbacks = [0, 1], latest_data = None\<rparr>"

definition example_arrival :: "string \<Rightarrow> real \<Rightarrow> arrival" where
  "example_arrival s t =
     \<lparr>line = s, current_time = t, parse_iso = ''2025-01-01T00:00:00'', parse_time = t\<rparr>"

definition example_reading :: "string \<Rightarrow> pyfloat \<Rightarrow> string \<Rightarrow> int \<Rightarrow> telemetry" where
  "example_reading ts x tok epoch =
     \<lparr>device_timestamp = ts, local_timestamp = ''2025-01-01T00:00:00'',
      epoch_timestamp = epoch,
      variables = [(''EC'', \<lparr>val = x, unit = [CHR 0xCE, CHR 0xBC] @ ''S/cm'',
                            description = ''Electrical Conductivity'', raw = tok\<rparr>)],
      device_id = ''WaterFeature8'', raw_line = ts @ '','' @ tok\<rparr>"

text \<open>A bridge with a broker client, and a stand-in for \<^verbatim>\<open>json.loads\<close> on the payloads of the
  examples.\<close>

definition example_bridge :: "nat iot" where
  "example_bridge =
     \<lparr>iot_device_id = ''waterfeature8-001'', waterfeature_device = example_device,
      mqtt_client = Some [], connected_to_aws = True, latest_reading = None\<rparr>"

definition example_loads :: "string \<Rightarrow> json option" where
  "example_loads s = (if s = ''[1]'' then Some (JList [JInt 1]) else None)"

text \<open>
  The store after one record has been parsed into an empty store, the slot that refers
  to the record, the stores after one and two calls of \<^verbatim>\<open>get_latest_data\<close>, and the store
  after a write through the first copy: into a nested measurement, and into a
  top-level key.
\<close>

definition example_store :: store where
  "example_store = fst (new_telemetry [] (example_reading ''t0'' (Finite 7.5) ''7.5'' 1000))"

definition example_slot :: nat where
  "example_slot = snd (new_telemetry [] (example_reading ''t0'' (Finite 7.5) ''7.5'' 1000))"

definition example_one_copy :: store where
  "example_one_copy = fst (get_latest_data_copy example_store (Some example_slot))"

definition example_two_copies :: store where
  "example_two_copies = fst (get_latest_data_copy example_one_copy (Some example_slot))"

definition example_nested_write :: store where
  "example_nested_write =
     (case assign example_two_copies 3 [''variables'', ''EC'', ''value''] (PFloat (Finite 99)) of
        Some h \<Rightarrow> h | None \<Rightarrow> [])"

definition example_top_write :: store where
  "example_top_write =
     (case assign example_two_copies 3 [''device_id''] (PStr ''changed'') of
        Some h \<Rightarrow> h | None \<Rightarrow> [])"

section \<open>Properties of the reading parser\<close>

lemma update_fresh: "k \<notin> fst ` set al \<Longrightarrow> AList.update k v al = al @ [(k, v)]"
  by (induction al) auto

lemma distinct_variable_labels: "distinct variable_labels"
  by (simp add: variable_labels_def)

lemma collect_variables_beyond:
  "length variable_labels \<le> i \<Longrightarrow> collect_variables float_of i vs vars = vars"
  by (induction vs arbitrary: i) auto

lemma collect_variables_append:
  "map fst vars = take i variable_labels \<Longrightarrow>
   collect_variables float_of i vs vars =
     vars @ map (\<lambda>(j, v). (variable_labels ! j, measure_field float_of j v))
              (zip [i..<length variable_labels] vs)"
proof (induction vs arbitrary: i vars)
  case Nil
  then show ?case by simp
next
  case (Cons v vs)
  show ?case
  proof (cases "i < length variable_labels")
    case False
    then show ?thesis by (simp add: collect_variables_beyond)
  next
    case True
    let ?m = "measure_field float_of i v"
    have "variable_labels ! i \<notin> set (take i variable_labels)"
      using True distinct_variable_labels
      by (metis distinct_take id_take_nth_drop not_distinct_conv_prefix take_Suc_conv_app_nth)
    then have fresh: "variable_labels ! i \<notin> fst ` set vars"
      using Cons.prems by (metis set_map)
    have keys: "map fst (vars @ [(variable_labels ! i, ?m)]) = take (Suc i) variable_labels"
      using Cons.prems True by (simp add: take_Suc_conv_app_nth)
    have "collect_variables float_of i (v # vs) vars =
            collect_variables float_of (Suc i) vs (vars @ [(variable_labels ! i, ?m)])"
      using True fresh by (simp add: update_fresh)
    also have "\<dots> = (vars @ [(variable_labels ! i, ?m)]) @
            map (\<lambda>(j, v). (variable_labels ! j, measure_field float_of j v))
              (zip [Suc i..<length variable_labels] vs)"
      by (rule Cons.IH [OF keys])
    finally show ?thesis
      using True by (simp add: upt_conv_Cons)
  qed
qed

lemma collect_variables_eq:
  "collect_variables float_of 0 vs [] =
     map (\<lambda>(j, v). (variable_labels ! j, measure_field float_of j v))
       (zip [0..<length variable_labels] vs)"
  using collect_variables_append [of "[]" 0 float_of vs] by simp

lemma collect_variables_nth:
  assumes "k < length variable_labels" "k < length vs"
  shows "collect_variables float_of 0 vs [] ! k =
           (variable_labels ! k, measure_field float_of k (vs ! k))"
  using assms by (simp add: collect_variables_eq)

lemma collect_variables_keys:
  "map fst (collect_variables float_of 0 vs []) = take (length vs) variable_labels"
proof -
  have "map fst (collect_variables float_of 0 vs []) =
          map (\<lambda>j. variable_labels ! j) (map fst (zip [0..<length variable_labels] vs))"
    by (simp add: collect_variables_eq case_prod_unfold)
  also have "map fst (zip [0..<length variable_labels] vs) =
               [0..<min (length variable_labels) (length vs)]"
    by (simp add: map_fst_zip_take min.commute take_upt)
  also have "map (\<lambda>j. variable_labels ! j) [0..<min (length variable_labels) (length vs)] =
               take (length vs) variable_labels"
    by (rule nth_equalityI) auto
  finally show ?thesis .
qed

lemma collect_variables_lookup:
  assumes "k < length variable_labels" "k < length vs"
  shows "map_of (collect_variables float_of 0 vs []) (variable_labels ! k) =
           Some (measure_field float_of k (vs ! k))"
proof -
  have d: "distinct (map fst (collect_variables float_of 0 vs []))"
    by (simp add: collect_variables_keys distinct_variable_labels)
  have len: "k < length (collect_variables float_of 0 vs [])"
    using assms by (simp add: collect_variables_eq)
  have "(variable_labels ! k, measure_field float_of k (vs ! k))
          \<in> set (collect_variables float_of 0 vs [])"
    using collect_variables_nth [OF assms, of float_of] len by (metis nth_mem)
  with d show ?thesis by (rule map_of_is_SomeI)
qed

lemma measure_field_default:
  "strip v = [] \<or> float_of (strip v) = None \<Longrightarrow>
   measure_field float_of i v =
     \<lparr>val = Finite 0, unit = variable_units ! i,
      description = variable_descriptions ! i, raw = strip v\<rparr>"
  by (auto simp: measure_field_def)

lemma parse_data_line_fields:
  "parse_data_line float_of now_iso now_time inp \<noteq> None \<longleftrightarrow> 2 \<le> length (split_comma (strip inp))"
  by (auto simp: parse_data_line_def split: list.splits)

text \<open>
  Claim C2. Whatever the line, if it has a field at position \<open>i\<close> with \<open>1 \<le> i \<le> 7\<close> whose
  trimmed token is empty or is rejected by \<^verbatim>\<open>float\<close>, then the parse succeeds, and channel
  \<open>i - 1\<close> of the record (by position and by name) holds the value 0.0, the unit and
  description bound to that channel, and the trimmed token as \<open>raw\<close>.
\<close>

theorem parse_non_numeric_field:
  assumes pos: "1 \<le> i" "i \<le> 7"
    and len: "i < length (split_comma (strip inp))"
    and bad: "strip (split_comma (strip inp) ! i) = [] \<or>
              float_of (strip (split_comma (strip inp) ! i)) = None"
  shows "\<exists>t. parse_data_line float_of now_iso now_time inp = Some t \<and>
             variables t ! (i - 1) =
               (variable_labels ! (i - 1),
                \<lparr>val = Finite 0, unit = variable_units ! (i - 1),
                 description = variable_descriptions ! (i - 1),
                 raw = strip (split_comma (strip inp) ! i)\<rparr>) \<and>
             map_of (variables t) (variable_labels ! (i - 1)) =
               Some \<lparr>val = Finite 0, unit = variable_units ! (i - 1),
                     description = variable_descriptions ! (i - 1),
                     raw = strip (split_comma (strip inp) ! i)\<rparr>"
proof -
  have "Suc (Suc 0) \<le> length (split_comma (strip inp))"
    using pos len by simp
  then obtain ts v vs where parts: "split_comma (strip inp) = ts # v # vs"
    by (auto simp: Suc_le_length_iff)
  let ?t = "\<lparr>device_timestamp = ts, local_timestamp = now_iso,
             epoch_timestamp = py_int now_time,
             variables = collect_variables float_of 0 (v # vs) [],
             device_id = ''WaterFeature8'', raw_line = strip inp\<rparr>"
  have p: "parse_data_line float_of now_iso now_time inp = Some ?t"
    by (simp add: parse_data_line_def parts)
  have k: "i - 1 < length variable_labels" "i - 1 < length (v # vs)"
    using pos len parts by (auto simp: variable_labels_def)
  have tok: "(v # vs) ! (i - 1) = split_comma (strip inp) ! i"
    using pos parts by (cases i) auto
  have m: "measure_field float_of (i - 1) ((v # vs) ! (i - 1)) =
             \<lparr>val = Finite 0, unit = variable_units ! (i - 1),
              description = variable_descriptions ! (i - 1),
              raw = strip (split_comma (strip inp) ! i)\<rparr>"
    using bad by (simp only: tok measure_field_default)
  show ?thesis
    using p collect_variables_nth [OF k, of float_of] collect_variables_lookup [OF k, of float_of] m
    by simp
qed

theorem parse_non_numeric_field_witness:
  "(1::nat) \<le> 2 \<and> (2::nat) \<le> 7 \<and> 2 < length (split_comma (strip ''t0, 7.5 ,abc,21''))
   \<and> example_float (strip (split_comma (strip ''t0, 7.5 ,abc,21'') ! 2)) = None
   \<and> (\<exists>t. parse_data_line example_float ''2025-01-01T00:00:00'' 1735689600 ''t0, 7.5 ,abc,21'' = Some t
          \<and> variables t ! 1 =
               (''RTD_EC'', \<lparr>val = Finite 0, unit = [CHR 0xC2, CHR 0xB0] @ ''C'',
                  description = ''Temperature (EC compensation)'', raw = ''abc''\<rparr>))"
proof -
  have s: "strip ''t0, 7.5 ,abc,21'' = ''t0, 7.5 ,abc,21''"
    by code_simp
  have h3: "2 < length (split_comma (strip ''t0, 7.5 ,abc,21''))"
    by (simp add: s)
  have tok: "strip (split_comma (strip ''t0, 7.5 ,abc,21'') ! 2) = ''abc''"
    unfolding s by code_simp
  have h4: "strip (split_comma (strip ''t0, 7.5 ,abc,21'') ! 2) = [] \<or>
            example_float (strip (split_comma (strip ''t0, 7.5 ,abc,21'') ! 2)) = None"
    by (simp add: tok example_float_def)
  show ?thesis
    using parse_non_numeric_field [of 2 "''t0, 7.5 ,abc,21''" example_float
        "''2025-01-01T00:00:00''" 1735689600, OF _ _ h3 h4] h3 h4
    by (auto simp: tok variable_labels_def variable_units_def variable_descriptions_def
        example_float_def)
qed

section \<open>Properties of the acquisition loop\<close>

lemma read_iterations_quiet:
  "running (dev r) \<Longrightarrow> list_all quiet ps \<Longrightarrow>
   read_iterations float_of r (ps @ qs) = read_iterations float_of r qs"
proof (induction ps)
  case Nil
  then show ?case by simp
next
  case (Cons p ps)
  then show ?case
    by (cases p) (auto simp: read_line_step_def)
qed

lemma parse_some_nonblank:
  "parse_data_line float_of now_iso now_time inp = Some t \<Longrightarrow> strip inp \<noteq> []"
  by (auto simp: parse_data_line_def split: list.splits)

lemma strip_examples:
  "strip ''t0,7.5'' = ''t0,7.5''" "strip ''t1,21'' = ''t1,21''" "strip ''7.5'' = ''7.5''"
  "strip ''21'' = ''21''" "strip ''garbage'' = ''garbage''" "strip '' '' = []"
  by code_simp+

lemma parse_examples:
  "parse_data_line example_float ''2025-01-01T00:00:00'' 1000 ''t0,7.5'' =
     Some (example_reading ''t0'' (Finite 7.5) ''7.5'' 1000)"
  "parse_data_line example_float ''2025-01-01T00:00:00'' 1010 ''t1,21'' =
     Some (example_reading ''t1'' (Finite 21) ''21'' 1010)"
  "parse_data_line example_float ''2025-01-01T00:00:00'' 1061 ''t1,21'' =
     Some (example_reading ''t1'' (Finite 21) ''21'' 1061)"
  by (simp_all add: parse_data_line_def strip_examples measure_field_def example_float_def
      example_reading_def variable_labels_def variable_units_def variable_descriptions_def
      py_int_def)

text \<open>
  Claim C3. A line that splits into fewer than two comma-separated fields is rejected
  by the parser, whatever the clock; when the loop processes such a line, the device
  object (and with it the latest reading and the callback list) is as before, and no
  callback invocation is added.
\<close>

theorem short_line_rejected:
  assumes "length (split_comma (strip (line a))) < 2"
  shows "parse_data_line float_of now_iso now_time (line a) = None \<and>
         dev (read_line_step float_of r a) = dev r \<and>
         calls (read_line_step float_of r a) = calls r"
proof -
  have "parse_data_line float_of x y (line a) = None" for x y
    using assms by (auto simp: parse_data_line_def split: list.splits)
  then show ?thesis
    by (simp add: read_line_step_def)
qed

theorem short_line_rejected_witness:
  "length (split_comma (strip (line (example_arrival ''garbage'' 1000)))) < 2 \<and>
   parse_data_line example_float ''2025-01-01T00:00:00'' 1000 (line (example_arrival ''garbage'' 1000)) = None \<and>
   dev (read_line_step example_float \<lparr>dev = example_device, last_sample_time = 0, calls = []\<rparr>
          (example_arrival ''garbage'' 1000)) = example_device \<and>
   calls (read_line_step example_float \<lparr>dev = example_device, last_sample_time = 0, calls = []\<rparr>
          (example_arrival ''garbage'' 1000)) = []"
proof -
  have h: "length (split_comma (strip (line (example_arrival ''garbage'' 1000)))) < 2"
    by (simp add: example_arrival_def strip_examples)
  show ?thesis
    using h short_line_rejected [OF h, of example_float "''2025-01-01T00:00:00''" 1000
        "\<lparr>dev = example_device, last_sample_time = 0, calls = []\<rparr>"]
    by simp
qed

text \<open>
  Claim C10. The loop starts with \<open>last_sample_time = 0\<close>, so the first non-blank line
  it sees, after any number of empty polls and blank lines, passes the gate when its
  arrival time is a wall-clock time, that is at least 60 seconds after the epoch: the
  line is handed to the parser and its arrival time becomes \<open>last_sample_time\<close>.
\<close>

theorem first_line_passes_gate:
  assumes "running d" and "list_all quiet pre"
    and "strip (line a) \<noteq> []" and "60 \<le> current_time a"
  shows "read_loop float_of d (pre @ [Available a]) =
           (case parse_data_line float_of (parse_iso a) (parse_time a) (line a) of
              Some t \<Rightarrow>
                \<lparr>dev = d\<lparr>latest_data := Some t\<rparr>, last_sample_time = current_time a,
                 calls = map (\<lambda>callback. (callback, t)) (data_callbacks d)\<rparr>
            | None \<Rightarrow> \<lparr>dev = d, last_sample_time = current_time a, calls = []\<rparr>)"
  using assms
  by (simp add: read_loop_def read_iterations_quiet read_line_step_def split: option.splits)

theorem first_line_passes_gate_witness:
  "running example_device \<and>
   list_all quiet [NoInput, Available (example_arrival '' '' 5)] \<and>
   strip (line (example_arrival ''t0,7.5'' 1000)) \<noteq> [] \<and>
   60 \<le> current_time (example_arrival ''t0,7.5'' 1000) \<and>
   read_loop example_float example_device
     ([NoInput, Available (example_arrival '' '' 5)] @ [Available (example_arrival ''t0,7.5'' 1000)]) =
     \<lparr>dev = example_device\<lparr>latest_data := Some (example_reading ''t0'' (Finite 7.5) ''7.5'' 1000)\<rparr>,
      last_sample_time = 1000,
      calls = [(0, example_reading ''t0'' (Finite 7.5) ''7.5'' 1000),
               (1, example_reading ''t0'' (Finite 7.5) ''7.5'' 1000)]\<rparr>"
proof -
  have h1: "running example_device" by (simp add: example_device_def)
  have h2: "list_all quiet [NoInput, Available (example_arrival '' '' 5)]"
    by (simp add: example_arrival_def strip_examples)
  have h3: "strip (line (example_arrival ''t0,7.5'' 1000)) \<noteq> []"
    by (simp add: example_arrival_def strip_examples)
  have h4: "60 \<le> current_time (example_arrival ''t0,7.5'' 1000)"
    by (simp add: example_arrival_def)
  have d: "data_callbacks example_device = [0, 1]" by (simp add: example_device_def)
  show ?thesis
    using h1 h2 h3 h4 first_line_passes_gate [OF h1 h2 h3 h4, of example_float]
    by (simp add: example_arrival_def parse_examples d)
qed

text \<open>
  Claim C1. A non-blank line seen less than 60 seconds after \<open>last_sample_time\<close> leaves
  the loop state as it was: no parse, no stored reading, no callback. A line seen 60
  seconds or more after it, if it parses, is stored and handed to every callback, and
  its arrival time becomes \<open>last_sample_time\<close>; if it does not parse, only
  \<open>last_sample_time\<close> changes. Of two valid lines read by a fresh loop,
  the second less than 60 seconds after the first (10, say), only the first is
  published; when the second comes 60 seconds or more after the first (61, say), both
  are.
\<close>

theorem sampling_gate:
  "(strip (line a) \<noteq> [] \<and> current_time a - last_sample_time r < 60 \<longrightarrow>
      read_line_step float_of r a = r) \<and>
   (60 \<le> current_time a - last_sample_time r \<and>
    parse_data_line float_of (parse_iso a) (parse_time a) (line a) = Some t \<longrightarrow>
      read_line_step float_of r a =
        r\<lparr>dev := (dev r)\<lparr>latest_data := Some t\<rparr>,
          calls := calls r @ map (\<lambda>callback. (callback, t)) (data_callbacks (dev r)),
          last_sample_time := current_time a\<rparr>) \<and>
   (strip (line a) \<noteq> [] \<and> 60 \<le> current_time a - last_sample_time r \<and>
    parse_data_line float_of (parse_iso a) (parse_time a) (line a) = None \<longrightarrow>
      read_line_step float_of r a = r\<lparr>last_sample_time := current_time a\<rparr>) \<and>
   (running d \<and> 60 \<le> current_time a1 \<and>
    parse_data_line float_of (parse_iso a1) (parse_time a1) (line a1) = Some t1 \<and>
    parse_data_line float_of (parse_iso a2) (parse_time a2) (line a2) = Some t2 \<longrightarrow>
      (current_time a2 - current_time a1 < 60 \<longrightarrow>
         read_loop float_of d [Available a1, Available a2] =
           \<lparr>dev = d\<lparr>latest_data := Some t1\<rparr>, last_sample_time = current_time a1,
            calls = map (\<lambda>callback. (callback, t1)) (data_callbacks d)\<rparr>) \<and>
      (60 \<le> current_time a2 - current_time a1 \<longrightarrow>
         read_loop float_of d [Available a1, Available a2] =
           \<lparr>dev = d\<lparr>latest_data := Some t2\<rparr>, last_sample_time = current_time a2,
            calls = map (\<lambda>callback. (callback, t1)) (data_callbacks d) @
                    map (\<lambda>callback. (callback, t2)) (data_callbacks d)\<rparr>))"
proof (intro conjI impI)
  assume "strip (line a) \<noteq> [] \<and> current_time a - last_sample_time r < 60"
  then show "read_line_step float_of r a = r"
    by (simp add: read_line_step_def)
next
  assume h: "60 \<le> current_time a - last_sample_time r \<and>
    parse_data_line float_of (parse_iso a) (parse_time a) (line a) = Some t"
  then have "strip (line a) \<noteq> []" by (auto dest: parse_some_nonblank)
  with h show "read_line_step float_of r a =
        r\<lparr>dev := (dev r)\<lparr>latest_data := Some t\<rparr>,
          calls := calls r @ map (\<lambda>callback. (callback, t)) (data_callbacks (dev r)),
          last_sample_time := current_time a\<rparr>"
    by (simp add: read_line_step_def)
next
  assume "strip (line a) \<noteq> [] \<and> 60 \<le> current_time a - last_sample_time r \<and>
    parse_data_line float_of (parse_iso a) (parse_time a) (line a) = None"
  then show "read_line_step float_of r a = r\<lparr>last_sample_time := current_time a\<rparr>"
    by (simp add: read_line_step_def)
next
  assume h: "running d \<and> 60 \<le> current_time a1 \<and>
    parse_data_line float_of (parse_iso a1) (parse_time a1) (line a1) = Some t1 \<and>
    parse_data_line float_of (parse_iso a2) (parse_time a2) (line a2) = Some t2"
  then have nb: "strip (line a1) \<noteq> []" "strip (line a2) \<noteq> []"
    by (auto dest: parse_some_nonblank)
  {
    assume "current_time a2 - current_time a1 < 60"
    with h nb show "read_loop float_of d [Available a1, Available a2] =
           \<lparr>dev = d\<lparr>latest_data := Some t1\<rparr>, last_sample_time = current_time a1,
            calls = map (\<lambda>callback. (callback, t1)) (data_callbacks d)\<rparr>"
      by (simp add: read_loop_def read_line_step_def)
  next
    assume "60 \<le> current_time a2 - current_time a1"
    with h nb show "read_loop float_of d [Available a1, Available a2] =
           \<lparr>dev = d\<lparr>latest_data := Some t2\<rparr>, last_sample_time = current_time a2,
            calls = map (\<lambda>callback. (callback, t1)) (data_callbacks d) @
                    map (\<lambda>callback. (callback, t2)) (data_callbacks d)\<rparr>"
      by (simp add: read_loop_def read_line_step_def)
  }
qed

theorem sampling_gate_witness:
  "running example_device \<and> 60 \<le> current_time (example_arrival ''t0,7.5'' 1000) \<and>
   current_time (example_arrival ''t1,21'' 1010) - current_time (example_arrival ''t0,7.5'' 1000) < 60 \<and>
   60 \<le> current_time (example_arrival ''t1,21'' 1061) - current_time (example_arrival ''t0,7.5'' 1000) \<and>
   read_loop example_float example_device
     [Available (example_arrival ''t0,7.5'' 1000), Available (example_arrival ''t1,21'' 1010)] =
     \<lparr>dev = example_device\<lparr>latest_data := Some (example_reading ''t0'' (Finite 7.5) ''7.5'' 1000)\<rparr>,
      last_sample_time = 1000,
      calls = [(0, example_reading ''t0'' (Finite 7.5) ''7.5'' 1000),
               (1, example_reading ''t0'' (Finite 7.5) ''7.5'' 1000)]\<rparr> \<and>
   read_loop example_float example_device
     [Available (example_arrival ''t0,7.5'' 1000), Available (example_arrival ''t1,21'' 1061)] =
     \<lparr>dev = example_device\<lparr>latest_data := Some (example_reading ''t1'' (Finite 21) ''21'' 1061)\<rparr>,
      last_sample_time = 1061,
      calls = [(0, example_reading ''t0'' (Finite 7.5) ''7.5'' 1000),
               (1, example_reading ''t0'' (Finite 7.5) ''7.5'' 1000),
               (0, example_reading ''t1'' (Finite 21) ''21'' 1061),
               (1, example_reading ''t1'' (Finite 21) ''21'' 1061)]\<rparr> \<and>
   strip (line (example_arrival ''t1,21'' 1010)) \<noteq> [] \<and>
   read_line_step example_float \<lparr>dev = example_device, last_sample_time = 1000, calls = []\<rparr>
     (example_arrival ''t1,21'' 1010) =
     \<lparr>dev = example_device, last_sample_time = 1000, calls = []\<rparr> \<and>
   read_line_step example_float \<lparr>dev = example_device, last_sample_time = 1000, calls = []\<rparr>
     (example_arrival ''t1,21'' 1061) =
     \<lparr>dev = example_device\<lparr>latest_data := Some (example_reading ''t1'' (Finite 21) ''21'' 1061)\<rparr>,
      last_sample_time = 1061,
      calls = [(0, example_reading ''t1'' (Finite 21) ''21'' 1061),
               (1, example_reading ''t1'' (Finite 21) ''21'' 1061)]\<rparr> \<and>
   strip (line (example_arrival ''garbage'' 1061)) \<noteq> [] \<and>
   parse_data_line example_float (parse_iso (example_arrival ''garbage'' 1061))
     (parse_time (example_arrival ''garbage'' 1061)) (line (example_arrival ''garbage'' 1061)) = None \<and>
   read_line_step example_float \<lparr>dev = example_device, last_sample_time = 1000, calls = []\<rparr>
     (example_arrival ''garbage'' 1061) =
     \<lparr>dev = example_device, last_sample_time = 1061, calls = []\<rparr>"
proof -
  have d: "data_callbacks example_device = [0, 1]" "running example_device"
    by (simp_all add: example_device_def)
  have n: "parse_data_line example_float ''2025-01-01T00:00:00'' 1061 ''garbage'' = None"
    by (simp add: parse_data_line_def strip_examples)
  note g0 = sampling_gate [where a = "example_arrival ''garbage'' 1061"
      and r = "\<lparr>dev = example_device, last_sample_time = 1000, calls = []\<rparr>"
      and float_of = example_float
      and t = "example_reading ''t1'' (Finite 21) ''21'' 1061" and d = example_device
      and ?a1.0 = "example_arrival ''t0,7.5'' 1000"
      and ?t1.0 = "example_reading ''t0'' (Finite 7.5) ''7.5'' 1000"
      and ?a2.0 = "example_arrival ''t1,21'' 1061"
      and ?t2.0 = "example_reading ''t1'' (Finite 21) ''21'' 1061"]
  note g10 = sampling_gate [of "example_arrival ''t1,21'' 1010"
      "\<lparr>dev = example_device, last_sample_time = 1000, calls = []\<rparr>" example_float
      "example_reading ''t1'' (Finite 21) ''21'' 1010" example_device
      "example_arrival ''t0,7.5'' 1000" "example_reading ''t0'' (Finite 7.5) ''7.5'' 1000"
      "example_arrival ''t1,21'' 1010" "example_reading ''t1'' (Finite 21) ''21'' 1010"]
  note g61 = sampling_gate [of "example_arrival ''t1,21'' 1061"
      "\<lparr>dev = example_device, last_sample_time = 1000, calls = []\<rparr>" example_float
      "example_reading ''t1'' (Finite 21) ''21'' 1061" example_device
      "example_arrival ''t0,7.5'' 1000" "example_reading ''t0'' (Finite 7.5) ''7.5'' 1000"
      "example_arrival ''t1,21'' 1061" "example_reading ''t1'' (Finite 21) ''21'' 1061"]
  show ?thesis
    using g0 g10 g61
    by (simp add: example_arrival_def parse_examples strip_examples d n)
qed

section \<open>Properties of the device session\<close>

text \<open>
  Claim C8. \<^verbatim>\<open>send_command\<close> returns false, with the device untouched, when the port is
  missing or closed and when the write raises \<^verbatim>\<open>SerialException\<close>; when the port is open
  and the write goes through, it returns true and what was written is the command
  followed by a newline. It returns true in no other case.
\<close>

theorem send_command_result:
  "(\<not> serial_ready d \<longrightarrow> send_command w d command = Inr (False, d)) \<and>
   (serial_ready d \<and> w = WriteSerialException \<longrightarrow> send_command w d command = Inr (False, d)) \<and>
   (serial_ready d \<and> w = Written \<longrightarrow>
      (\<exists>s. serial_conn d = Some s \<and>
           send_command w d command =
             Inr (True, d\<lparr>serial_conn :=
                           Some (s\<lparr>written := written s @ [command @ ''\<newline>'']\<rparr>)\<rparr>))) \<and>
   ((\<exists>d'. send_command w d command = Inr (True, d')) \<longleftrightarrow> serial_ready d \<and> w = Written)"
  by (cases w) (auto simp: send_command_def serial_ready_def split: option.splits)

theorem send_command_result_witness:
  "serial_ready example_device \<and>
   \<not> serial_ready (example_device\<lparr>serial_conn := None\<rparr>) \<and>
   send_command Written (example_device\<lparr>serial_conn := None\<rparr>) ''R'' =
     Inr (False, example_device\<lparr>serial_conn := None\<rparr>) \<and>
   send_command WriteSerialException example_device ''R'' = Inr (False, example_device) \<and>
   send_command Written example_device ''R'' =
     Inr (True, example_device\<lparr>serial_conn := Some \<lparr>is_open = True, written = [''R\<newline>'']\<rparr>\<rparr>)"
  using send_command_result [of "example_device\<lparr>serial_conn := None\<rparr>" Written "''R''"]
    send_command_result [of example_device WriteSerialException "''R''"]
    send_command_result [of example_device Written "''R''"]
  by (auto simp: serial_ready_def example_device_def)

section \<open>Properties of the command bridge\<close>

lemma publish_some:
  "mqtt_client b = Some sent \<Longrightarrow>
   publish b tp pl = b\<lparr>mqtt_client := Some (sent @ [(tp, pl, 1)])\<rparr>"
  by (simp add: publish_def)

text \<open>
  Claim C5. For a command object whose \<open>type\<close> is none of \<open>get_status\<close>, \<open>get_reading\<close> and
  \<open>send_device_command\<close> (a missing \<open>type\<close> counts as the empty string), a bridge with a
  broker client publishes one message more, on the response topic: status \<open>error\<close>,
  message \<open>Unknown command\<close>, and the command's \<open>command_id\<close>, or \<open>unknown\<close> when the
  command has none.
\<close>

theorem unknown_command_response:
  assumes "mqtt_client b = Some sent"
    and "dict_get entries ''type'' (JStr []) \<noteq> JStr ''get_status''"
    and "dict_get entries ''type'' (JStr []) \<noteq> JStr ''get_reading''"
    and "dict_get entries ''type'' (JStr []) \<noteq> JStr ''send_device_command''"
  shows "handle_command fmt w now b (JObj entries) =
           b\<lparr>mqtt_client := Some (sent @
              [(topic_response b,
                JObj [(''command_id'', (case map_of entries ''command_id'' of
                                          None \<Rightarrow> JStr ''unknown'' | Some v \<Rightarrow> v)),
                      (''device_id'', JStr (iot_device_id b)),
                      (''timestamp'', JStr now),
                      (''status'', JStr ''error''),
                      (''message'', JStr ''Unknown command'')],
                1)])\<rparr>"
  using assms
  by (simp add: handle_command_def dispatch_def Let_def publish_command_response_def
      publish_some dict_get_def)

theorem unknown_command_response_witness:
  "mqtt_client example_bridge = Some [] \<and>
   dict_get [(''type'', JStr ''frobulate''), (''command_id'', JStr ''x'')] ''type'' (JStr [])
     \<noteq> JStr ''get_status'' \<and>
   handle_command (\<lambda>v. []) Written ''2025-01-01T00:00:00'' example_bridge
     (JObj [(''type'', JStr ''frobulate''), (''command_id'', JStr ''x'')]) =
     example_bridge\<lparr>mqtt_client := Some
       [(''waterfeature8/waterfeature8-001/response'',
         JObj [(''command_id'', JStr ''x''), (''device_id'', JStr ''waterfeature8-001''),
               (''timestamp'', JStr ''2025-01-01T00:00:00''), (''status'', JStr ''error''),
               (''message'', JStr ''Unknown command'')], 1)]\<rparr> \<and>
   handle_command (\<lambda>v. []) Written ''2025-01-01T00:00:00'' example_bridge (JObj [(''type'', JStr ''frobulate'')]) =
     example_bridge\<lparr>mqtt_client := Some
       [(''waterfeature8/waterfeature8-001/response'',
         JObj [(''command_id'', JStr ''unknown''), (''device_id'', JStr ''waterfeature8-001''),
               (''timestamp'', JStr ''2025-01-01T00:00:00''), (''status'', JStr ''error''),
               (''message'', JStr ''Unknown command'')], 1)]\<rparr>"
proof -
  have m: "mqtt_client example_bridge = Some []" by (simp add: example_bridge_def)
  have t: "dict_get [(''type'', JStr ''frobulate''), (''command_id'', JStr ''x'')] ''type'' (JStr []) = JStr ''frobulate''"
    "dict_get [(''type'', JStr ''frobulate'')] ''type'' (JStr []) = JStr ''frobulate''"
    by (simp_all add: dict_get_def)
  have i: "iot_device_id example_bridge = ''waterfeature8-001''" by (simp add: example_bridge_def)
  show ?thesis
    using unknown_command_response [OF m, of "[(''type'', JStr ''frobulate''), (''command_id'', JStr ''x'')]"
        "\<lambda>v. []" Written "''2025-01-01T00:00:00''"]
      unknown_command_response [OF m, of "[(''type'', JStr ''frobulate'')]" "\<lambda>v. []" Written
        "''2025-01-01T00:00:00''"]
    by (simp add: m t i topic_response_def)
qed

text \<open>
  Claim C4. For a \<open>get_reading\<close> command with \<open>command_id\<close> \<open>abc\<close>, a bridge with a broker
  client publishes one response that echoes \<open>abc\<close>: with an empty slot its status is
  \<open>error\<close> and its message \<open>No recent data available\<close>; with a reading in the slot its
  status is \<open>success\<close> and its \<open>data\<close> is that reading. A sample handed to
  \<^verbatim>\<open>data_received_callback\<close> is the reading in the slot afterwards, so the same request
  then answers with that sample.
\<close>

theorem get_reading_round_trip:
  assumes "mqtt_client b = Some sent"
    and "map_of entries ''type'' = Some (JStr ''get_reading'')"
    and "map_of entries ''command_id'' = Some (JStr ''abc'')"
  shows "(latest_reading b = None \<longrightarrow>
            handle_command fmt w now b (JObj entries) =
              b\<lparr>mqtt_client := Some (sent @
                 [(topic_response b,
                   JObj [(''command_id'', JStr ''abc''),
                         (''device_id'', JStr (iot_device_id b)),
                         (''timestamp'', JStr now),
                         (''status'', JStr ''error''),
                         (''message'', JStr ''No recent data available'')],
                   1)])\<rparr>) \<and>
         (latest_reading b = Some data \<longrightarrow>
            handle_command fmt w now b (JObj entries) =
              b\<lparr>mqtt_client := Some (sent @
                 [(topic_response b,
                   JObj [(''command_id'', JStr ''abc''),
                         (''device_id'', JStr (iot_device_id b)),
                         (''timestamp'', JStr now),
                         (''status'', JStr ''success''),
                         (''message'', JStr ''Latest reading retrieved''),
                         (''data'', telemetry_dict data)],
                   1)])\<rparr>) \<and>
         latest_reading (data_received_callback b sample) = Some sample \<and>
         (\<exists>sent'. mqtt_client (data_received_callback b sample) = Some sent' \<and>
            handle_command fmt w now (data_received_callback b sample) (JObj entries) =
              (data_received_callback b sample)\<lparr>mqtt_client := Some (sent' @
                 [(topic_response b,
                   JObj [(''command_id'', JStr ''abc''),
                         (''device_id'', JStr (iot_device_id b)),
                         (''timestamp'', JStr now),
                         (''status'', JStr ''success''),
                         (''message'', JStr ''Latest reading retrieved''),
                         (''data'', telemetry_dict sample)],
                   1)])\<rparr>)"
proof -
  have cmd: "dict_get entries ''type'' (JStr []) = JStr ''get_reading''"
    "dict_get entries ''command_id'' (JStr ''unknown'') = JStr ''abc''"
    using assms by (simp_all add: dict_get_def)
  have resp: "handle_command fmt w now c (JObj entries) =
      c\<lparr>mqtt_client := Some (out @
         [(topic_response c,
           JObj ([(''command_id'', JStr ''abc''),
                 (''device_id'', JStr (iot_device_id c)),
                 (''timestamp'', JStr now)] @
                 (case latest_reading c of
                    None \<Rightarrow> [(''status'', JStr ''error''),
                             (''message'', JStr ''No recent data available'')]
                  | Some t \<Rightarrow> [(''status'', JStr ''success''),
                               (''message'', JStr ''Latest reading retrieved''),
                               (''data'', telemetry_dict t)])),
           1)])\<rparr>"
    if "mqtt_client c = Some out" for c :: "'a iot" and out
    using that
    by (simp add: handle_command_def dispatch_def cmd Let_def iot_get_latest_data_def
        dict_update_def publish_command_response_def publish_some split: option.splits)
  have after: "latest_reading (data_received_callback b sample) = Some sample"
    "iot_device_id (data_received_callback b sample) = iot_device_id b"
    "topic_response (data_received_callback b sample) = topic_response b"
    "\<exists>sent'. mqtt_client (data_received_callback b sample) = Some sent'"
    using assms(1)
    by (simp_all add: data_received_callback_def Let_def publish_telemetry_data_def publish_def
        topic_response_def)
  then obtain sent' where s': "mqtt_client (data_received_callback b sample) = Some sent'"
    by blast
  show ?thesis
    using resp [OF assms(1)] resp [OF s'] after(1,2,3) s'
    by (auto split: option.splits)
qed

theorem get_reading_round_trip_witness:
  "mqtt_client example_bridge = Some [] \<and>
   map_of [(''type'', JStr ''get_reading''), (''command_id'', JStr ''abc'')] ''type'' =
     Some (JStr ''get_reading'') \<and>
   map_of [(''type'', JStr ''get_reading''), (''command_id'', JStr ''abc'')] ''command_id'' =
     Some (JStr ''abc'') \<and>
   latest_reading example_bridge = None \<and>
   handle_command (\<lambda>v. []) Written ''2025-01-01T00:00:05'' example_bridge
     (JObj [(''type'', JStr ''get_reading''), (''command_id'', JStr ''abc'')]) =
     example_bridge\<lparr>mqtt_client := Some
       [(''waterfeature8/waterfeature8-001/response'',
         JObj [(''command_id'', JStr ''abc''), (''device_id'', JStr ''waterfeature8-001''),
               (''timestamp'', JStr ''2025-01-01T00:00:05''), (''status'', JStr ''error''),
               (''message'', JStr ''No recent data available'')], 1)]\<rparr> \<and>
   latest_reading (example_bridge\<lparr>latest_reading :=
       Some (example_reading ''t0'' (Finite 7.5) ''7.5'' 1000)\<rparr>) =
     Some (example_reading ''t0'' (Finite 7.5) ''7.5'' 1000) \<and>
   handle_command (\<lambda>v. []) Written ''2025-01-01T00:00:05''
     (example_bridge\<lparr>latest_reading := Some (example_reading ''t0'' (Finite 7.5) ''7.5'' 1000)\<rparr>)
     (JObj [(''type'', JStr ''get_reading''), (''command_id'', JStr ''abc'')]) =
     example_bridge\<lparr>latest_reading := Some (example_reading ''t0'' (Finite 7.5) ''7.5'' 1000),
       mqtt_client := Some
       [(''waterfeature8/waterfeature8-001/response'',
         JObj [(''command_id'', JStr ''abc''), (''device_id'', JStr ''waterfeature8-001''),
               (''timestamp'', JStr ''2025-01-01T00:00:05''), (''status'', JStr ''success''),
               (''message'', JStr ''Latest reading retrieved''),
               (''data'', telemetry_dict (example_reading ''t0'' (Finite 7.5) ''7.5'' 1000))], 1)]\<rparr>"
proof -
  have m: "mqtt_client example_bridge = Some []"
    "mqtt_client (example_bridge\<lparr>latest_reading :=
       Some (example_reading ''t0'' (Finite 7.5) ''7.5'' 1000)\<rparr>) = Some []"
    by (simp_all add: example_bridge_def)
  have c: "map_of [(''type'', JStr ''get_reading''), (''command_id'', JStr ''abc'')] ''type'' =
     Some (JStr ''get_reading'')"
    "map_of [(''type'', JStr ''get_reading''), (''command_id'', JStr ''abc'')] ''command_id'' =
     Some (JStr ''abc'')"
    by simp_all
  have i: "iot_device_id example_bridge = ''waterfeature8-001''"
    "latest_reading example_bridge = None"
    by (simp_all add: example_bridge_def)
  show ?thesis
    using get_reading_round_trip [OF m(1) c, where fmt = "\<lambda>v. []" and w = Written
        and now = "''2025-01-01T00:00:05''"]
      get_reading_round_trip [OF m(2) c, where fmt = "\<lambda>v. []" and w = Written
        and now = "''2025-01-01T00:00:05''"
        and data = "example_reading ''t0'' (Finite 7.5) ''7.5'' 1000"]
    by (simp add: m i topic_response_def)
qed

text \<open>
  Claim C6. A message whose payload does not decode leaves the bridge as it was, and so
  does a message whose dispatch raises: nothing is published and the handler returns.
  Dispatch raises on a decoded value that is not an object, and on a device command
  whose write raises something other than \<^verbatim>\<open>SerialException\<close>; \<^verbatim>\<open>handle_command\<close> catches
  both.
\<close>

theorem malformed_envelope_dropped:
  "(loads (payload msg) = None \<longrightarrow> on_mqtt_message loads fmt w now b msg = b) \<and>
   (loads (payload msg) = Some decoded \<and> dispatch fmt w now b decoded = Inl e \<longrightarrow>
      on_mqtt_message loads fmt w now b msg = b) \<and>
   ((\<forall>entries. decoded \<noteq> JObj entries) \<longrightarrow>
      dispatch fmt w now b decoded = Inl AttributeError \<and>
      handle_command fmt w now b decoded = b) \<and>
   (map_of entries ''type'' = Some (JStr ''send_device_command'') \<and>
    serial_ready (waterfeature_device b) \<and> w = WriteOtherException \<longrightarrow>
      dispatch fmt w now b (JObj entries) = Inl OtherException \<and>
      handle_command fmt w now b (JObj entries) = b)"
proof (intro conjI impI)
  assume "loads (payload msg) = None"
  then show "on_mqtt_message loads fmt w now b msg = b"
    by (simp add: on_mqtt_message_def)
next
  assume "loads (payload msg) = Some decoded \<and> dispatch fmt w now b decoded = Inl e"
  then show "on_mqtt_message loads fmt w now b msg = b"
    by (simp add: on_mqtt_message_def handle_command_def)
next
  assume n: "\<forall>entries. decoded \<noteq> JObj entries"
  then show d: "dispatch fmt w now b decoded = Inl AttributeError"
    by (cases decoded) (simp_all add: dispatch_def)
  show "handle_command fmt w now b decoded = b"
    using n by (cases decoded) (simp_all add: handle_command_def dispatch_def)
next
  assume h: "map_of entries ''type'' = Some (JStr ''send_device_command'') \<and>
    serial_ready (waterfeature_device b) \<and> w = WriteOtherException"
  then have t: "dict_get entries ''type'' (JStr []) = JStr ''send_device_command''"
    by (simp add: dict_get_def)
  from h have s: "send_command w (waterfeature_device b) c = Inl OtherException" for c
    by (auto simp: send_command_def serial_ready_def split: option.splits)
  show d: "dispatch fmt w now b (JObj entries) = Inl OtherException"
    by (simp add: dispatch_def t s Let_def)
  show "handle_command fmt w now b (JObj entries) = b"
    by (simp add: handle_command_def d)
qed

theorem malformed_envelope_dropped_witness:
  "example_loads (payload \<lparr>topic = ''waterfeature8/waterfeature8-001/command'', payload = ''{type:''\<rparr>) = None \<and>
   on_mqtt_message example_loads (\<lambda>v. []) Written ''2025-01-01T00:00:05'' example_bridge
     \<lparr>topic = ''waterfeature8/waterfeature8-001/command'', payload = ''{type:''\<rparr> = example_bridge \<and>
   example_loads (payload \<lparr>topic = ''waterfeature8/waterfeature8-001/command'', payload = ''[1]''\<rparr>) =
     Some (JList [JInt 1]) \<and>
   dispatch (\<lambda>v. []) Written ''2025-01-01T00:00:05'' example_bridge (JList [JInt 1]) =
     Inl AttributeError \<and>
   on_mqtt_message example_loads (\<lambda>v. []) Written ''2025-01-01T00:00:05'' example_bridge
     \<lparr>topic = ''waterfeature8/waterfeature8-001/command'', payload = ''[1]''\<rparr> = example_bridge \<and>
   map_of [(''type'', JStr ''send_device_command'')] ''type'' = Some (JStr ''send_device_command'') \<and>
   serial_ready (waterfeature_device example_bridge) \<and>
   handle_command (\<lambda>v. []) WriteOtherException ''2025-01-01T00:00:05'' example_bridge
     (JObj [(''type'', JStr ''send_device_command'')]) = example_bridge"
proof -
  have l: "example_loads ''{type:'' = None" "example_loads ''[1]'' = Some (JList [JInt 1])"
    by (simp_all add: example_loads_def)
  have r: "serial_ready (waterfeature_device example_bridge)"
    by (simp add: example_bridge_def example_device_def serial_ready_def)
  note a = malformed_envelope_dropped [where loads = example_loads and fmt = "\<lambda>v. []"
      and w = Written and now = "''2025-01-01T00:00:05''" and b = example_bridge
      and msg = "\<lparr>topic = ''waterfeature8/waterfeature8-001/command'', payload = ''{type:''\<rparr>"
      and decoded = "JList [JInt 1]" and e = AttributeError and entries = "[]"]
  note b = malformed_envelope_dropped [where loads = example_loads and fmt = "\<lambda>v. []"
      and w = Written and now = "''2025-01-01T00:00:05''" and b = example_bridge
      and msg = "\<lparr>topic = ''waterfeature8/waterfeature8-001/command'', payload = ''[1]''\<rparr>"
      and decoded = "JList [JInt 1]" and e = AttributeError and entries = "[]"]
  note c = malformed_envelope_dropped [where loads = example_loads and fmt = "\<lambda>v. []"
      and w = WriteOtherException and now = "''2025-01-01T00:00:05''" and b = example_bridge
      and msg = "\<lparr>topic = ''waterfeature8/waterfeature8-001/command'', payload = ''[1]''\<rparr>"
      and decoded = "JList [JInt 1]" and e = AttributeError
      and entries = "[(''type'', JStr ''send_device_command'')]"]
  show ?thesis
    using a b c by (simp add: l r)
qed

section \<open>Properties of the telemetry publisher\<close>

lemma parsed_channels_distinct:
  assumes "parse_data_line float_of now_iso now_time inp = Some t"
  shows "distinct (map fst (variables t))"
proof -
  obtain vs where "variables t = collect_variables float_of 0 vs []"
    using assms by (auto simp: parse_data_line_def simp del: collect_variables.simps
        split: list.splits)
  then show ?thesis
    by (simp only: collect_variables_keys distinct_take distinct_variable_labels)
qed

lemma fold_update_fresh:
  "distinct (map fst acc @ map fst xs) \<Longrightarrow>
   foldl (\<lambda>acc (k, v). AList.update k (g v) acc) acc xs = acc @ map (\<lambda>(k, v). (k, g v)) xs"
proof (induction xs arbitrary: acc)
  case Nil
  then show ?case by simp
next
  case (Cons x xs)
  obtain k v where x: "x = (k, v)" by (cases x)
  have fresh: "k \<notin> fst ` set acc"
    using Cons.prems x by auto
  have d: "distinct (map fst (acc @ [(k, g v)]) @ map fst xs)"
    using Cons.prems x by auto
  show ?case
    using Cons.IH [OF d] fresh by (simp add: x update_fresh)
qed

text \<open>
  Claim C7. For a record with distinct channel names, as every parsed record has
  (\<open>parsed_channels_distinct\<close>): a connected bridge with a broker client stores the
  record and publishes one message more, on the telemetry topic, with the bridge's
  device id, the record's three timestamps and, per channel, value, unit and
  description only; a bridge that is not connected stores the record and does nothing
  else.
\<close>

theorem telemetry_publish:
  assumes "distinct (map fst (variables data))"
  shows "(connected_to_aws b \<and> mqtt_client b = Some sent \<longrightarrow>
            data_received_callback b data =
              b\<lparr>latest_reading := Some data,
                mqtt_client := Some (sent @
                  [(topic_telemetry b,
                    JObj [(''device_id'', JStr (iot_device_id b)),
                          (''timestamp'', JStr (local_timestamp data)),
                          (''epoch_timestamp'', JInt (epoch_timestamp data)),
                          (''device_timestamp'', JStr (device_timestamp data)),
                          (''measurements'',
                             JObj (map (\<lambda>(var_name, var_data).
                                          (var_name,
                                           JObj [(''value'', JFloat (val var_data)),
                                                 (''unit'', JStr (unit var_data)),
                                                 (''description'', JStr (description var_data))]))
                                     (variables data)))],
                    1)])\<rparr>) \<and>
         (\<not> connected_to_aws b \<longrightarrow>
            data_received_callback b data = b\<lparr>latest_reading := Some data\<rparr>)"
proof -
  have m: "foldl (\<lambda>acc (var_name, var_data).
                    AList.update var_name
                      (JObj [(''value'', JFloat (val var_data)),
                             (''unit'', JStr (unit var_data)),
                             (''description'', JStr (description var_data))]) acc)
             [] (variables data) =
           map (\<lambda>(var_name, var_data).
                  (var_name,
                   JObj [(''value'', JFloat (val var_data)),
                         (''unit'', JStr (unit var_data)),
                         (''description'', JStr (description var_data))]))
             (variables data)"
    using fold_update_fresh [of "[]" "variables data"
        "\<lambda>var_data. JObj [(''value'', JFloat (val var_data)),
                           (''unit'', JStr (unit var_data)),
                           (''description'', JStr (description var_data))]"] assms
    by simp
  show ?thesis
    by (simp add: data_received_callback_def Let_def publish_telemetry_data_def publish_def
        telemetry_payload_def topic_telemetry_def m)
qed

theorem telemetry_publish_witness:
  "distinct (map fst (variables (example_reading ''t0'' (Finite 7.5) ''7.5'' 1000))) \<and>
   connected_to_aws example_bridge \<and> mqtt_client example_bridge = Some [] \<and>
   data_received_callback example_bridge (example_reading ''t0'' (Finite 7.5) ''7.5'' 1000) =
     example_bridge\<lparr>latest_reading := Some (example_reading ''t0'' (Finite 7.5) ''7.5'' 1000),
       mqtt_client := Some
         [(''waterfeature8/waterfeature8-001/telemetry'',
           JObj [(''device_id'', JStr ''waterfeature8-001''),
                 (''timestamp'', JStr ''2025-01-01T00:00:00''),
                 (''epoch_timestamp'', JInt 1000),
                 (''device_timestamp'', JStr ''t0''),
                 (''measurements'',
                    JObj [(''EC'', JObj [(''value'', JFloat (Finite 7.5)),
                                         (''unit'', JStr ([CHR 0xCE, CHR 0xBC] @ ''S/cm'')),
                                         (''description'', JStr ''Electrical Conductivity'')])])],
           1)]\<rparr> \<and>
   \<not> connected_to_aws (example_bridge\<lparr>connected_to_aws := False\<rparr>) \<and>
   data_received_callback (example_bridge\<lparr>connected_to_aws := False\<rparr>)
       (example_reading ''t0'' (Finite 7.5) ''7.5'' 1000) =
     example_bridge\<lparr>connected_to_aws := False,
       latest_reading := Some (example_reading ''t0'' (Finite 7.5) ''7.5'' 1000)\<rparr>"
proof -
  have d: "distinct (map fst (variables (example_reading ''t0'' (Finite 7.5) ''7.5'' 1000)))"
    by (simp add: example_reading_def)
  have c: "connected_to_aws example_bridge" "mqtt_client example_bridge = Some []"
    "iot_device_id example_bridge = ''waterfeature8-001''"
    by (simp_all add: example_bridge_def)
  show ?thesis
    using d c telemetry_publish [OF d, of example_bridge "[]"]
      telemetry_publish [OF d, of "example_bridge\<lparr>connected_to_aws := False\<rparr>" "[]"]
    by (simp add: topic_telemetry_def example_reading_def)
qed

section \<open>Properties of the latest-reading slot\<close>

text \<open>
  The objects made for a record hold the record: seen through its references, the new
  object is the dict of the record, and a closed store stays closed.
\<close>

lemma new_measurements_eq:
  "new_measurements h ms =
     (h @ map (\<lambda>nm. measurement_object (snd nm)) ms,
      map (\<lambda>(nm, i). (fst nm, PRef i)) (zip ms [length h..<length h + length ms]))"
proof (induction ms arbitrary: h)
  case Nil
  then show ?case by simp
next
  case (Cons x ms)
  obtain name m where x: "x = (name, m)" by (cases x)
  have u: "[length h..<Suc (length h + length ms)] =
             length h # [Suc (length h)..<Suc (length h + length ms)]"
    using upt_conv_Cons [of "length h" "Suc (length h + length ms)"] by simp
  show ?case
    by (simp add: x alloc_def Cons.IH u del: upt_Suc)
qed

lemma new_telemetry_eq:
  "new_telemetry h t =
     (h @ map (\<lambda>nm. measurement_object (snd nm)) (variables t) @
        [map (\<lambda>(nm, i). (fst nm, PRef i))
           (zip (variables t) [length h..<length h + length (variables t)]),
         [(''device_timestamp'', PStr (device_timestamp t)),
          (''local_timestamp'', PStr (local_timestamp t)),
          (''epoch_timestamp'', PInt (epoch_timestamp t)),
          (''variables'', PRef (length h + length (variables t))),
          (''device_id'', PStr (device_id t)),
          (''raw_line'', PStr (raw_line t))]],
      Suc (length h + length (variables t)))"
  by (simp add: new_telemetry_def new_measurements_eq alloc_def)

lemma new_telemetry_slot:
  "snd (new_telemetry h t) < length (fst (new_telemetry h t))"
  "fst (new_telemetry h t) ! snd (new_telemetry h t) \<noteq> []"
  by (simp_all add: new_telemetry_eq nth_append)

lemma new_telemetry_closed:
  assumes "closed h"
  shows "closed (fst (new_telemetry h t))"
proof -
  let ?n = "length h + length (variables t) + 2"
  have mono: "refs_below (length h) d \<Longrightarrow> refs_below ?n d" for d
    by (auto simp: refs_below_def list_all_iff split: pyval.splits)
  have old: "list_all (refs_below ?n) h"
    using assms mono by (auto simp: closed_def list_all_iff)
  have ms: "list_all (refs_below ?n) (map (\<lambda>nm. measurement_object (snd nm)) (variables t))"
    by (simp add: list_all_iff refs_below_def measurement_object_def)
  have vars: "refs_below ?n (map (\<lambda>(nm, i). (fst nm, PRef i))
           (zip (variables t) [length h..<length h + length (variables t)]))"
    by (auto simp: refs_below_def list_all_iff dest!: set_zip_rightD)
  show ?thesis
    using old ms vars
    by (simp add: closed_def new_telemetry_eq refs_below_def)
qed

lemma new_telemetry_view:
  "view 3 (fst (new_telemetry h t)) (PRef (snd (new_telemetry h t))) = telemetry_dict t"
proof -
  let ?k = "length (variables t)"
  let ?entries = "map (\<lambda>(nm, i). (fst nm, PRef i)) (zip (variables t) [length h..<length h + ?k])"
  let ?h' = "fst (new_telemetry h t)"
  have at_m: "?h' ! (length h + i) = measurement_object (snd (variables t ! i))" if "i < ?k" for i
    using that by (simp add: new_telemetry_eq nth_append)
  have at_v: "?h' ! (length h + ?k) = ?entries"
    by (simp add: new_telemetry_eq nth_append)
  have at_r: "?h' ! Suc (length h + ?k) =
          [(''device_timestamp'', PStr (device_timestamp t)),
          (''local_timestamp'', PStr (local_timestamp t)),
          (''epoch_timestamp'', PInt (epoch_timestamp t)),
          (''variables'', PRef (length h + ?k)),
          (''device_id'', PStr (device_id t)),
          (''raw_line'', PStr (raw_line t))]"
    by (simp add: new_telemetry_eq nth_append)
  have one: "view (Suc 0) ?h' (PRef (length h + i)) = measurement_dict (snd (variables t ! i))"
    if "i < ?k" for i
    by (simp add: at_m [OF that] measurement_object_def measurement_dict_def)
  have vs: "map (\<lambda>kv. (fst kv, view (Suc 0) ?h' (snd kv))) ?entries =
            map (\<lambda>(name, m). (name, measurement_dict m)) (variables t)"
  proof (rule nth_equalityI)
    show "length (map (\<lambda>kv. (fst kv, view (Suc 0) ?h' (snd kv))) ?entries) =
          length (map (\<lambda>(name, m). (name, measurement_dict m)) (variables t))"
      by simp
  next
    fix i
    assume "i < length (map (\<lambda>kv. (fst kv, view (Suc 0) ?h' (snd kv))) ?entries)"
    then have i: "i < ?k" by simp
    then show "map (\<lambda>kv. (fst kv, view (Suc 0) ?h' (snd kv))) ?entries ! i =
          map (\<lambda>(name, m). (name, measurement_dict m)) (variables t) ! i"
      using one [OF i] by (simp add: case_prod_unfold)
  qed
  have two: "view (Suc (Suc 0)) ?h' (PRef (length h + ?k)) =
               JObj (map (\<lambda>(name, m). (name, measurement_dict m)) (variables t))"
  proof -
    have "view (Suc (Suc 0)) ?h' (PRef (length h + ?k)) =
            JObj (map (\<lambda>kv. (fst kv, view (Suc 0) ?h' (snd kv))) (?h' ! (length h + ?k)))"
      by (rule view.simps)
    also have "?h' ! (length h + ?k) = ?entries"
      by (rule at_v)
    also have "map (\<lambda>kv. (fst kv, view (Suc 0) ?h' (snd kv))) ?entries =
                 map (\<lambda>(name, m). (name, measurement_dict m)) (variables t)"
      by (rule vs)
    finally show ?thesis .
  qed
  have s: "snd (new_telemetry h t) = Suc (length h + ?k)"
    by (simp add: new_telemetry_eq)
  show ?thesis
    by (simp only: s numeral_3_eq_3 view.simps at_r)
       (simp add: two telemetry_dict_def del: view.simps(6))
qed

lemma view_agree:
  assumes "\<forall>x<m. h ! x = h' ! x" and "\<forall>x<m. refs_below m (h ! x)"
    and "case v of PRef r \<Rightarrow> r < m | _ \<Rightarrow> True"
  shows "view n h v = view n h' v"
  using assms(3)
proof (induction n arbitrary: v)
  case 0
  then show ?case by (cases v) simp_all
next
  case (Suc n)
  show ?case
  proof (cases v)
    case (PRef r)
    with Suc.prems have r: "r < m" by simp
    then have same: "h ! r = h' ! r" and below: "refs_below m (h ! r)"
      using assms(1,2) by auto
    have "view n h (snd kv) = view n h' (snd kv)" if "kv \<in> set (h ! r)" for kv
    proof (rule Suc.IH)
      show "case snd kv of PRef r \<Rightarrow> r < m | _ \<Rightarrow> True"
        using below that by (auto simp: refs_below_def list_all_iff)
    qed
    then show ?thesis
      using same by (simp add: PRef)
  qed simp_all
qed

lemma view_same_dict:
  "h ! a = h ! c \<Longrightarrow> view n h (PRef a) = view n h (PRef c)"
  by (cases n) simp_all

lemma example_store_eq:
  "example_store =
     [[(''value'', PFloat (Finite 7.5)), (''unit'', PStr ([CHR 0xCE, CHR 0xBC] @ ''S/cm'')),
       (''description'', PStr ''Electrical Conductivity''), (''raw'', PStr ''7.5'')],
      [(''EC'', PRef 0)],
      [(''device_timestamp'', PStr ''t0''), (''local_timestamp'', PStr ''2025-01-01T00:00:00''),
       (''epoch_timestamp'', PInt 1000), (''variables'', PRef 1),
       (''device_id'', PStr ''WaterFeature8''), (''raw_line'', PStr ''t0,7.5'')]]"
  "example_slot = 2"
  by (simp_all add: example_store_def example_slot_def new_telemetry_def alloc_def
      example_reading_def measurement_object_def)

lemma example_copies_eq:
  "get_latest_data_copy example_store (Some example_slot) = (example_one_copy, Some 3)"
  "get_latest_data_copy example_one_copy (Some example_slot) = (example_two_copies, Some 4)"
  "example_one_copy = example_store @ [example_store ! 2]"
  "example_two_copies = example_store @ [example_store ! 2, example_store ! 2]"
  by (simp_all add: example_two_copies_def example_one_copy_def example_store_eq
      get_latest_data_copy_def alloc_def)

text \<open>
  Claim C9, as stated, fails. After a record has been parsed and \<^verbatim>\<open>get_latest_data\<close> called
  twice, the write \<^verbatim>\<open>first['variables']['EC']['value'] = 99.0\<close> through the first copy
  changes what the slot holds and what the second copy holds: \<^verbatim>\<open>dict.copy\<close> is shallow.
\<close>

theorem nested_write_reaches_slot:
  "get_latest_data_copy example_store (Some example_slot) = (example_one_copy, Some 3) \<and>
   get_latest_data_copy example_one_copy (Some example_slot) = (example_two_copies, Some 4) \<and>
   assign example_two_copies 3 [''variables'', ''EC'', ''value''] (PFloat (Finite 99)) =
     Some example_nested_write \<and>
   view 3 example_nested_write (PRef example_slot) \<noteq> view 3 example_two_copies (PRef example_slot) \<and>
   view 3 example_nested_write (PRef 4) \<noteq> view 3 example_two_copies (PRef 4)"
  by (simp add: example_copies_eq(1,2))
     (simp add: example_nested_write_def example_copies_eq(4) example_store_eq numeral_3_eq_3)

text \<open>
  Claim C9, amended. In a closed store with a non-empty record in the slot, two calls
  of \<^verbatim>\<open>get_latest_data\<close> return two new objects, different from the slot's and from each
  other, that are equal to the stored record at every depth, and leave the slot as it
  was; assigning to a top-level key of the first copy changes neither the slot's
  record nor the second copy.
\<close>

theorem get_latest_data_copies:
  assumes "closed h" and "a < length h" and "h ! a \<noteq> []"
  shows "\<exists>h1 c1 h2 c2.
           get_latest_data_copy h (Some a) = (h1, Some c1) \<and>
           get_latest_data_copy h1 (Some a) = (h2, Some c2) \<and>
           c1 \<noteq> a \<and> c2 \<noteq> a \<and> c1 \<noteq> c2 \<and>
           h2 ! a = h ! a \<and>
           (\<forall>n. view n h2 (PRef c1) = view n h2 (PRef a) \<and>
                view n h2 (PRef c2) = view n h2 (PRef a) \<and>
                view n h2 (PRef a) = view n h (PRef a)) \<and>
           (\<forall>k v. \<exists>h3. assign h2 c1 [k] v = Some h3 \<and>
                (\<forall>n. view n h3 (PRef a) = view n h2 (PRef a) \<and>
                     view n h3 (PRef c2) = view n h2 (PRef c2)))"
proof -
  let ?m = "length h"
  let ?h1 = "h @ [h ! a]"
  let ?h2 = "?h1 @ [h ! a]"
  have g1: "get_latest_data_copy h (Some a) = (?h1, Some ?m)"
    using assms(3) by (simp add: get_latest_data_copy_def alloc_def)
  have a1: "?h1 ! a = h ! a"
    using assms(2) by (simp add: nth_append)
  have g2: "get_latest_data_copy ?h1 (Some a) = (?h2, Some (Suc ?m))"
    using assms(3) a1 by (simp add: get_latest_data_copy_def alloc_def)
  have at: "?h2 ! a = h ! a" "?h2 ! ?m = h ! a" "?h2 ! Suc ?m = h ! a"
    using assms(2) by (simp_all add: nth_append)
  have below: "\<forall>x<?m. refs_below ?m (h ! x)"
    using assms(1) by (simp add: closed_def list_all_length)
  have below2: "\<forall>x<?m. refs_below ?m (?h2 ! x)"
    using below by (simp add: nth_append)
  have old: "view n ?h2 (PRef a) = view n h (PRef a)" for n
    by (rule view_agree [of ?m]) (use assms(2) below2 in \<open>simp_all add: nth_append\<close>)
  have eq: "view n ?h2 (PRef ?m) = view n ?h2 (PRef a)"
    "view n ?h2 (PRef (Suc ?m)) = view n ?h2 (PRef a)" for n
    by (rule view_same_dict, simp only: at)+
  have top: "\<exists>h3. assign ?h2 ?m [k] v = Some h3 \<and>
                (\<forall>n. view n h3 (PRef a) = view n ?h2 (PRef a) \<and>
                     view n h3 (PRef (Suc ?m)) = view n ?h2 (PRef (Suc ?m)))" for k v
  proof -
    let ?h3 = "?h2[?m := AList.update k v (?h2 ! ?m)]"
    have same: "\<forall>x<?m. ?h3 ! x = ?h2 ! x"
      by (simp add: nth_append)
    have agree: "view n ?h3 u = view n ?h2 u" if "case u of PRef r \<Rightarrow> r < ?m | _ \<Rightarrow> True" for n u
      using view_agree [of ?m ?h2 ?h3 u n] same below2 that by simp
    have slot: "view n ?h3 (PRef a) = view n ?h2 (PRef a)" for n
      by (rule agree) (simp add: assms(2))
    have d3: "?h3 ! Suc ?m = h ! a"
      by (simp add: nth_append)
    have entries: "case snd kv of PRef r \<Rightarrow> r < ?m | _ \<Rightarrow> True" if "kv \<in> set (h ! a)" for kv
      using below assms(2) that by (auto simp: refs_below_def list_all_iff)
    have other: "view n ?h3 (PRef (Suc ?m)) = view n ?h2 (PRef (Suc ?m))" for n
    proof (cases n)
      case 0
      then show ?thesis by simp
    next
      case (Suc n')
      have meq: "map (\<lambda>kv. (fst kv, view n' ?h3 (snd kv))) (h ! a) =
            map (\<lambda>kv. (fst kv, view n' ?h2 (snd kv))) (h ! a)"
      proof (rule map_cong [OF refl])
        fix kv
        assume "kv \<in> set (h ! a)"
        from agree [OF entries [OF this], of n']
        show "(fst kv, view n' ?h3 (snd kv)) = (fst kv, view n' ?h2 (snd kv))"
          by (simp only:)
      qed
      show ?thesis
        by (simp only: Suc view.simps d3 at(3) meq)
    qed
    show ?thesis
      using slot other by (intro exI [of _ ?h3]) simp
  qed
  show ?thesis
    using g1 g2 at old eq top assms(2)
    by (intro exI [of _ ?h1] exI [of _ ?m] exI [of _ ?h2] exI [of _ "Suc ?m"]) simp
qed

theorem get_latest_data_copies_witness:
  "closed example_store \<and> example_slot < length example_store \<and>
   example_store ! example_slot \<noteq> [] \<and>
   (\<exists>h1 c1 h2 c2.
       get_latest_data_copy example_store (Some example_slot) = (h1, Some c1) \<and>
       get_latest_data_copy h1 (Some example_slot) = (h2, Some c2) \<and>
       c1 \<noteq> example_slot \<and> c2 \<noteq> example_slot \<and> c1 \<noteq> c2 \<and>
       h2 ! example_slot = example_store ! example_slot \<and>
       (\<forall>n. view n h2 (PRef c1) = view n h2 (PRef example_slot) \<and>
            view n h2 (PRef c2) = view n h2 (PRef example_slot) \<and>
            view n h2 (PRef example_slot) = view n example_store (PRef example_slot)) \<and>
       (\<forall>k v. \<exists>h3. assign h2 c1 [k] v = Some h3 \<and>
            (\<forall>n. view n h3 (PRef example_slot) = view n h2 (PRef example_slot) \<and>
                 view n h3 (PRef c2) = view n h2 (PRef c2)))) \<and>
   assign example_two_copies 3 [''device_id''] (PStr ''changed'') = Some example_top_write \<and>
   view 3 example_top_write (PRef 3) \<noteq> view 3 example_two_copies (PRef 3) \<and>
   view 3 example_top_write (PRef example_slot) = view 3 example_two_copies (PRef example_slot) \<and>
   view 3 example_top_write (PRef 4) = view 3 example_two_copies (PRef 4)"
proof -
  have h1: "closed example_store"
    by (simp add: example_store_eq closed_def refs_below_def)
  have h2: "example_slot < length example_store"
    by (simp add: example_store_eq)
  have h3: "example_store ! example_slot \<noteq> []"
    by (simp add: example_store_eq)
  have w: "assign example_two_copies 3 [''device_id''] (PStr ''changed'') = Some example_top_write"
    by (simp add: example_top_write_def)
  have v: "view 3 example_top_write (PRef 3) \<noteq> view 3 example_two_copies (PRef 3)"
    "view 3 example_top_write (PRef example_slot) = view 3 example_two_copies (PRef example_slot)"
    "view 3 example_top_write (PRef 4) = view 3 example_two_copies (PRef 4)"
    by (simp_all add: example_top_write_def example_copies_eq(4) example_store_eq numeral_3_eq_3)
  show ?thesis
    using h1 h2 h3 w v get_latest_data_copies [OF h1 h2 h3]
    by (intro conjI) assumption+
qed

end
